theory Spec2Isabelle
  imports Main "HOL-Library.AList"
begin

section \<open>Values of the program\<close>

text \<open>
  The tree that \<open>xml2js(..., { compact: true })\<close> returns and \<open>stripPrefixes\<close> rewrites:
  a string (text and attribute values), an object (an ordered list of key/value entries whose
  keys are pairwise different) or an array (a repeated element).  JavaScript's
  \<open>undefined\<close> is never stored in such a tree; where an expression of the source may be
  \<open>undefined\<close> the model has an \<open>option\<close>, with \<open>None\<close> for \<open>undefined\<close>.
\<close>

datatype js = JStr string | JObj "(string \<times> js) list" | JArr "js list"

text \<open>
  What the program throws or rejects a promise with: an \<open>Error\<close> with its message, the
  runtime's \<open>TypeError\<close> with its message, or a value that is no \<open>Error\<close> at all
  (\<open>reject('Error')\<close> in the UPO generator rejects with a plain string).
\<close>

datatype thrown = Error string | TypeError string | NonError string


text \<open>\<open>error instanceof Error ? error.message : 'Unknown error'\<close>\<close>

fun message_of :: "thrown \<Rightarrow> string" where
  "message_of (Error m) = m"
| "message_of (TypeError m) = m"
| "message_of (NonError v) = ''Unknown error''"

text \<open>
  Reading a property \<open>v.k\<close> of a value that is not \<open>undefined\<close>.  The keys read by the
  program are element and attribute names, which neither a string nor an array has.
\<close>

fun get_prop :: "js \<Rightarrow> string \<Rightarrow> js option" where
  "get_prop (JObj kvs) k = map_of kvs k"
| "get_prop (JStr s) k = None"
| "get_prop (JArr xs) k = None"

text \<open>Optional chaining \<open>v?.k\<close>.\<close>

fun opt_prop :: "js option \<Rightarrow> string \<Rightarrow> js option" where
  "opt_prop None k = None"
| "opt_prop (Some v) k = get_prop v k"

text \<open>Truthiness: \<open>undefined\<close> and the empty string are falsy, objects and arrays are truthy.\<close>

fun truthy :: "js option \<Rightarrow> bool" where
  "truthy None = False"
| "truthy (Some (JStr s)) = (s \<noteq> [])"
| "truthy (Some (JObj kvs)) = True"
| "truthy (Some (JArr xs)) = True"

text \<open>Truthiness of an optional string (\<open>string | undefined\<close>).\<close>

fun truthy_str :: "string option \<Rightarrow> bool" where
  "truthy_str None = False"
| "truthy_str (Some s) = (s \<noteq> [])"

text \<open>
  \<open>k in v\<close>: a \<open>TypeError\<close> on a primitive (the wording of its message is the
  runtime's), membership of the key in an object, and \<open>false\<close> for an element name on
  an array.
\<close>

definition in_operator_message :: string where
  "in_operator_message = ''Cannot use 'in' operator to search for a key in a string''"

fun has_key :: "string \<Rightarrow> js \<Rightarrow> thrown + bool" where
  "has_key k (JObj kvs) = Inr (map_of kvs k \<noteq> None)"
| "has_key k (JArr xs) = Inr False"
| "has_key k (JStr s) = Inl (TypeError in_operator_message)"

datatype DocumentType = invoice | upo

record AdditionalDataTypes =
  nrKSeF :: string
  qrCode :: "string option"

section \<open>Document type\<close>

definition detect_message :: string where
  "detect_message = ''Unable to detect document type. Use -t invoice or -t upo''"

definition detectDocumentType :: "js \<Rightarrow> thrown + DocumentType" where
  "detectDocumentType xml =
     (case has_key ''Faktura'' xml of
        Inl e \<Rightarrow> Inl e
      | Inr True \<Rightarrow> Inr invoice
      | Inr False \<Rightarrow>
          (case has_key ''Potwierdzenie'' xml of
             Inl e \<Rightarrow> Inl e
           | Inr True \<Rightarrow> Inr upo
           | Inr False \<Rightarrow> Inl (Error detect_message)))"

definition invalid_type_message :: "string \<Rightarrow> string" where
  "invalid_type_message t =
     ''Invalid document type: '' @ t @ ''. Must be 'invoice' or 'upo'' @ [CHR 0x27]"

definition validateDocumentType :: "string option \<Rightarrow> thrown + unit" where
  "validateDocumentType t =
     (case t of
        None \<Rightarrow> Inr ()
      | Some s \<Rightarrow>
          (if s = [] then Inr ()
           else if s \<noteq> ''invoice'' \<and> s \<noteq> ''upo''
             then Inl (Error (invalid_type_message s))
           else Inr ()))"

text \<open>
  Lines 204 and 205 of \<open>processFile\<close>: the override is validated, and
  \<open>values.type || detectDocumentType(parsedXml)\<close> evaluates the detection only when the
  override is falsy.
\<close>

definition as_DocumentType :: "string \<Rightarrow> DocumentType" where
  "as_DocumentType t = (if t = ''invoice'' then invoice else upo)"

definition docType_of :: "string option \<Rightarrow> js \<Rightarrow> thrown + DocumentType" where
  "docType_of t parsedXml =
     (case validateDocumentType t of
        Inl e \<Rightarrow> Inl e
      | Inr u \<Rightarrow>
          (case t of
             None \<Rightarrow> detectDocumentType parsedXml
           | Some s \<Rightarrow>
               (if s = [] then detectDocumentType parsedXml
                else Inr (as_DocumentType s))))"

section \<open>Invoices\<close>

text \<open>
  The functions of the repository that the program calls and that are outside the files
  verified here, and the functions of its libraries, are parameters of the model: the three
  invoice generators, \<open>getBlob\<close> of the document they return (\<open>None\<close> for a
  missing blob), the two UPO content generators, \<open>generateStyle()\<close>, the renderer behind
  \<open>pdfMake.createPdf(...).getBlob\<close>, \<open>xml2js\<close>, \<open>stripPrefixes\<close> and
  \<open>basename\<close>.  Each of them may throw.
\<close>

text \<open>
  Modelled from the spec: the enum \<open>Position\<close> (\<open>shared/enums/common.enum\<close>), whose
  declaration is not among the verified files.  A layout node carries an alignment;
  \<open>RIGHT\<close> is the member the program names, the other two stand for the remaining
  alignments.
\<close>

datatype Position = LEFT | CENTER | RIGHT

text \<open>
  A page number as the renderer hands it to the footer: a JavaScript number that is a
  natural number.  The renderer counts the pages of one document, so the number is one of
  the integers up to \<open>Number.MAX_SAFE_INTEGER\<close>, which a double holds exactly and
  \<open>Number.prototype.toString\<close> prints digit by digit.  Larger numbers are not values of
  this type.
\<close>

definition MAX_SAFE_INTEGER :: nat where
  "MAX_SAFE_INTEGER = 9007199254740991"

typedef page_number = "{n :: nat. n \<le> MAX_SAFE_INTEGER}"
  by (rule exI [of _ 0]) simp

record footer_node =
  text_of :: string
  alignment :: Position
  margin :: "int list"

text \<open>
  A value of the document definition handed to the renderer: the content array, a string,
  the footer function, or a value of the layout library that the program only passes on.
\<close>

datatype 'c docval =
    DContent "'c list"
  | DStr string
  | DFooter "page_number \<Rightarrow> page_number \<Rightarrow> footer_node"
  | DOpaque 'c

type_synonym 'c TDocumentDefinitions = "string \<rightharpoonup> 'c docval"

record ('p, 'c) env =
  xml2js :: "string \<Rightarrow> thrown + js"
  stripPrefixes :: "js \<Rightarrow> thrown + js"
  basename :: "string \<Rightarrow> string"
  generateFA1 :: "js \<Rightarrow> AdditionalDataTypes \<Rightarrow> thrown + 'p"
  generateFA2 :: "js \<Rightarrow> AdditionalDataTypes \<Rightarrow> thrown + 'p"
  generateFA3 :: "js \<Rightarrow> AdditionalDataTypes \<Rightarrow> thrown + 'p"
  getBlob :: "'p \<Rightarrow> thrown + string option"
  generateNaglowekUPO :: "js option \<Rightarrow> thrown + 'c"
  generateDokumnetUPO :: "js option \<Rightarrow> thrown + 'c"
  generateStyle :: "'c TDocumentDefinitions"
  createPdf_getBlob :: "'c TDocumentDefinitions \<Rightarrow> thrown + string option"

text \<open>
  The \<open>switch\<close> has three cases and no default: for any other version the function
  returns \<open>undefined\<close>, here \<open>None\<close>.
\<close>

definition generatePDFByVersion ::
  "('p, 'c) env \<Rightarrow> js \<Rightarrow> js \<Rightarrow> AdditionalDataTypes \<Rightarrow> thrown + 'p option" where
  "generatePDFByVersion E version faktura additionalData =
     (if version = JStr ''FA (1)'' then map_sum id Some (generateFA1 E faktura additionalData)
      else if version = JStr ''FA (2)'' then map_sum id Some (generateFA2 E faktura additionalData)
      else if version = JStr ''FA (3)'' then map_sum id Some (generateFA3 E faktura additionalData)
      else Inr None)"

text \<open>\<open>xml.Faktura.Naglowek?.KodFormularza?._attributes?.kodSystemowy\<close>\<close>

definition kodSystemowy :: "js \<Rightarrow> js option" where
  "kodSystemowy faktura =
     opt_prop (opt_prop (opt_prop (get_prop faktura ''Naglowek'') ''KodFormularza'')
       ''_attributes'') ''kodSystemowy''"

text \<open>\<open>nrKSeF || 'CLI-GENERATED'\<close>, and \<open>qrCode\<close> as it came.\<close>

definition additionalData_of :: "string option \<Rightarrow> string option \<Rightarrow> AdditionalDataTypes" where
  "additionalData_of nr qr =
     \<lparr>nrKSeF = (case nr of None \<Rightarrow> ''CLI-GENERATED''
                  | Some s \<Rightarrow> if s = [] then ''CLI-GENERATED'' else s),
      qrCode = qr\<rparr>"

text \<open>
  \<open>pdf.getBlob(...)\<close> inside the promise: on \<open>undefined\<close> the property read throws
  a \<open>TypeError\<close>, which rejects the promise.  The wording of its message is the
  runtime's; the one below is that of the engine behind \<open>bun\<close>.
\<close>

definition undefined_getBlob_message :: string where
  "undefined_getBlob_message = ''undefined is not an object (evaluating 'pdf.getBlob')''"

definition blob_of :: "('p, 'c) env \<Rightarrow> 'p option \<Rightarrow> thrown + string" where
  "blob_of E pdf =
     (case pdf of
        None \<Rightarrow> Inl (TypeError undefined_getBlob_message)
      | Some p \<Rightarrow>
          (case getBlob E p of
             Inl e \<Rightarrow> Inl e
           | Inr None \<Rightarrow> Inl (Error ''Failed to generate PDF blob'')
           | Inr (Some blob) \<Rightarrow> Inr blob))"

definition generateInvoicePDF ::
  "('p, 'c) env \<Rightarrow> js \<Rightarrow> string option \<Rightarrow> string option \<Rightarrow> thrown + string" where
  "generateInvoicePDF E xml nr qr =
     (case get_prop xml ''Faktura'' of
        None \<Rightarrow> Inl (Error ''Invalid invoice XML: missing Faktura element'')
      | Some faktura \<Rightarrow>
          if \<not> truthy (Some faktura)
            then Inl (Error ''Invalid invoice XML: missing Faktura element'')
          else
            (case kodSystemowy faktura of
               None \<Rightarrow> Inl (Error ''Invalid invoice XML: missing version information'')
             | Some version \<Rightarrow>
                 if \<not> truthy (Some version)
                   then Inl (Error ''Invalid invoice XML: missing version information'')
                 else
                   (case generatePDFByVersion E version faktura (additionalData_of nr qr) of
                      Inl e \<Rightarrow> Inl e
                    | Inr pdf \<Rightarrow> blob_of E pdf)))"

section \<open>UPO\<close>

text \<open>The decimal digits of a natural number, most significant first.\<close>

definition digit_char :: "nat \<Rightarrow> char" where
  "digit_char d = ''0123456789'' ! d"

fun decimal_digits :: "nat \<Rightarrow> string" where
  "decimal_digits n =
     (if n < 10 then [digit_char n]
      else decimal_digits (n div 10) @ [digit_char (n mod 10)])"

declare decimal_digits.simps [simp del]

text \<open>
  \<open>Number.prototype.toString\<close> on a page number, and the conversion of a page number
  in \<open>' z ' + pageCount\<close>: its decimal digits.
\<close>

definition Number_toString :: "page_number \<Rightarrow> string" where
  "Number_toString n = decimal_digits (Rep_page_number n)"

definition footer :: "page_number \<Rightarrow> page_number \<Rightarrow> footer_node" where
  "footer currentPage pageCount =
     \<lparr>text_of = Number_toString currentPage @ '' z '' @ Number_toString pageCount,
      alignment = RIGHT,
      margin = [0, 0, 20, 0]\<rparr>"

text \<open>
  The object literal of \<open>generatePDFUPOFromParsed\<close>: \<open>content\<close> first, then the
  entries of \<open>generateStyle()\<close> spread over it, then \<open>pageSize\<close>,
  \<open>pageOrientation\<close> and \<open>footer\<close>; a later entry replaces an earlier one with the
  same key.
\<close>

definition docDefinition :: "('p, 'c) env \<Rightarrow> 'c \<Rightarrow> 'c \<Rightarrow> 'c TDocumentDefinitions" where
  "docDefinition E naglowek dokumenty =
     ([''content'' \<mapsto> DContent [naglowek, dokumenty]] ++ generateStyle E)
       (''pageSize'' \<mapsto> DStr ''A4'',
        ''pageOrientation'' \<mapsto> DStr ''landscape'',
        ''footer'' \<mapsto> DFooter footer)"

text \<open>The argument is \<open>upo.Potwierdzenie\<close>, which may be \<open>undefined\<close>.\<close>

definition generatePDFUPOFromParsed :: "('p, 'c) env \<Rightarrow> js option \<Rightarrow> thrown + string" where
  "generatePDFUPOFromParsed E potwierdzenie =
     (case generateNaglowekUPO E potwierdzenie of
        Inl e \<Rightarrow> Inl e
      | Inr naglowek \<Rightarrow>
          (case generateDokumnetUPO E potwierdzenie of
             Inl e \<Rightarrow> Inl e
           | Inr dokumenty \<Rightarrow>
               (case createPdf_getBlob E (docDefinition E naglowek dokumenty) of
                  Inl e \<Rightarrow> Inl e
                | Inr None \<Rightarrow> Inl (NonError ''Error'')
                | Inr (Some blob) \<Rightarrow> Inr blob)))"

definition generateUPOPDF :: "('p, 'c) env \<Rightarrow> js \<Rightarrow> thrown + string" where
  "generateUPOPDF E xml = generatePDFUPOFromParsed E (get_prop xml ''Potwierdzenie'')"

section \<open>Paths and files\<close>

text \<open>
  \<open>toLowerCase\<close> on the letters A to Z.  Other characters are left as they are: no
  character outside A to Z lower-cases to a full stop, \<open>x\<close>, \<open>m\<close> or \<open>l\<close>, so the
  test for the suffix \<open>.xml\<close> sees the same answer.
\<close>

definition toLowerCase_char :: "char \<Rightarrow> char" where
  "toLowerCase_char c =
     (case map_of (zip ''ABCDEFGHIJKLMNOPQRSTUVWXYZ'' ''abcdefghijklmnopqrstuvwxyz'') c of
        None \<Rightarrow> c
      | Some l \<Rightarrow> l)"

definition toLowerCase :: "string \<Rightarrow> string" where
  "toLowerCase s = map toLowerCase_char s"

definition endsWith :: "string \<Rightarrow> string \<Rightarrow> bool" where
  "endsWith s suffix =
     (length suffix \<le> length s \<and> drop (length s - length suffix) s = suffix)"

text \<open>\<open>s.slice(0, -4)\<close>\<close>

definition slice_0_minus4 :: "string \<Rightarrow> string" where
  "slice_0_minus4 s = take (length s - 4) s"

definition getOutputPath :: "string \<Rightarrow> string option \<Rightarrow> string" where
  "getOutputPath inputPath outputArg =
     (let hasXmlExt = endsWith (toLowerCase inputPath) ''.xml'';
          derived = (if hasXmlExt then slice_0_minus4 inputPath @ ''.pdf''
                     else inputPath @ ''.pdf'') in
      case outputArg of
        None \<Rightarrow> derived
      | Some path \<Rightarrow> if path = [] then derived else path)"

text \<open>
  \<open>trim\<close> removes white space and line terminators at both ends (of the characters
  below 256: tab, line feed, vertical tab, form feed, carriage return, space, no-break
  space).
\<close>

definition is_whitespace :: "char \<Rightarrow> bool" where
  "is_whitespace c =
     (c \<in> set [CHR 0x09, CHR 0x0A, CHR 0x0B, CHR 0x0C, CHR 0x0D, CHR 0x20, CHR 0xA0])"

definition trim :: "string \<Rightarrow> string" where
  "trim s = rev (dropWhile is_whitespace (rev (dropWhile is_whitespace s)))"

definition parseXmlContent :: "('p, 'c) env \<Rightarrow> string \<Rightarrow> thrown + js" where
  "parseXmlContent E xmlContent =
     (case xml2js E xmlContent of
        Inl e \<Rightarrow> Inl (Error (''Failed to parse XML: '' @ message_of e))
      | Inr tree \<Rightarrow>
          (case stripPrefixes E tree of
             Inl e \<Rightarrow> Inl (Error (''Failed to parse XML: '' @ message_of e))
           | Inr parsedXml \<Rightarrow> Inr parsedXml))"

text \<open>The options of the command line (\<open>values\<close> of \<open>parseArgs\<close>).\<close>

record cli_values =
  "output" :: "string option"
  "type" :: "string option"
  ksef :: "string option"
  qrcode :: "string option"
  json :: bool

record SuccessResult =
  res_input :: string
  res_output :: string
  res_type :: DocumentType
  res_size :: nat

text \<open>
  The state the program acts on: the files (path to content; the bytes of a PDF are a
  string as well) and the lines written by \<open>log\<close>.
\<close>

record state =
  files :: "string \<rightharpoonup> string"
  console :: "string list"

definition log :: "cli_values \<Rightarrow> state \<Rightarrow> string \<Rightarrow> state" where
  "log v st message = (if json v then st else st\<lparr>console := console st @ [message]\<rparr>)"

definition processFile ::
  "('p, 'c) env \<Rightarrow> cli_values \<Rightarrow> state \<Rightarrow> string \<Rightarrow> (thrown + SuccessResult) \<times> state" where
  "processFile E v st inputPath =
     (let inputFile = basename E inputPath in
      case files st inputPath of
        None \<Rightarrow> (Inl (Error (''File not found: '' @ inputFile)), st)
      | Some xmlContent \<Rightarrow>
          let st1 = log v st (''Loading: '' @ inputFile) in
          if trim xmlContent = [] then (Inl (Error ''XML file is empty''), st1)
          else
            (case parseXmlContent E xmlContent of
               Inl e \<Rightarrow> (Inl e, st1)
             | Inr parsedXml \<Rightarrow>
                 (case docType_of (type v) parsedXml of
                    Inl e \<Rightarrow> (Inl e, st1)
                  | Inr docType \<Rightarrow>
                      let st2 = log v st1
                            (''Type: '' @ (if docType = invoice then ''Invoice'' else ''UPO''));
                          st3 = log v st2 ''Generating PDF...'' in
                      (case (if docType = invoice
                             then generateInvoicePDF E parsedXml (ksef v) (qrcode v)
                             else generateUPOPDF E parsedXml) of
                         Inl e \<Rightarrow> (Inl e, st3)
                       | Inr pdfBlob \<Rightarrow>
                           let outputPath = getOutputPath inputPath (output v) in
                           (Inr \<lparr>res_input = inputFile,
                                 res_output = basename E outputPath,
                                 res_type = docType,
                                 res_size = length pdfBlob\<rparr>,
                            st3\<lparr>files := (files st3)(outputPath \<mapsto> pdfBlob)\<rparr>)))))"

section \<open>Parts of the repository specified only by its specification\<close>

text \<open>
  Modelled from the spec: the page descriptor of the invoice generators
  (\<open>lib-public/FA1-generator\<close>, \<open>FA2-generator\<close>, \<open>FA3-generator\<close>), which are
  not among the verified files.  The specification's layout assembler wraps the content
  of a builder with the page size A4, the orientation (portrait for an invoice), the
  global style block and the footer rule.
\<close>

definition invoiceDocDefinition :: "'c TDocumentDefinitions \<Rightarrow> 'c list \<Rightarrow> 'c TDocumentDefinitions" where
  "invoiceDocDefinition style content =
     ([''content'' \<mapsto> DContent content] ++ style)
       (''pageSize'' \<mapsto> DStr ''A4'',
        ''pageOrientation'' \<mapsto> DStr ''portrait'',
        ''footer'' \<mapsto> DFooter footer)"













text \<open>
  Modelled from the spec: the currency formatter of the field formatters
  (\<open>shared/PDF-functions\<close>), which is not among the verified files.  A numeric string
  (an optional minus sign, digits, and optionally a point followed by digits) becomes the
  amount with exactly two decimals; any other string is returned as it is.  The
  specification does not say what happens to a third decimal; the model rounds half up.
\<close>

definition is_digit :: "char \<Rightarrow> bool" where
  "is_digit c = (c \<in> set ''0123456789'')"

definition digit_value :: "char \<Rightarrow> nat" where
  "digit_value c = length (takeWhile (\<lambda>d. d \<noteq> c) ''0123456789'')"

definition decimal_value :: "string \<Rightarrow> nat" where
  "decimal_value ds = foldl (\<lambda>a c. 10 * a + digit_value c) 0 ds"

definition is_digits :: "string \<Rightarrow> bool" where
  "is_digits ds = (ds \<noteq> [] \<and> list_all is_digit ds)"

text \<open>The grammar of a numeric string, stated on its own.\<close>

definition is_unsigned_numeric :: "string \<Rightarrow> bool" where
  "is_unsigned_numeric s =
     (is_digits s \<or>
      list_ex (\<lambda>i. s ! i = CHR ''.'' \<and> is_digits (take i s) \<and> is_digits (drop (Suc i) s))
        [0..<length s])"

definition is_numeric :: "string \<Rightarrow> bool" where
  "is_numeric s = (is_unsigned_numeric s \<or> (s \<noteq> [] \<and> hd s = CHR ''-'' \<and> is_unsigned_numeric (tl s)))"

text \<open>The parser: the integer digits and the fraction digits of an unsigned numeric string.\<close>

definition parse_unsigned :: "string \<Rightarrow> (string \<times> string) option" where
  "parse_unsigned s =
     (let ip = takeWhile is_digit s; rest = dropWhile is_digit s in
      if ip = [] then None
      else if rest = [] then Some (ip, [])
      else if hd rest = CHR ''.'' \<and> is_digits (tl rest) then Some (ip, tl rest)
      else None)"

definition cents_of :: "string \<Rightarrow> string \<Rightarrow> nat" where
  "cents_of ip fp =
     (let k = length fp; n = decimal_value (ip @ fp) in
      if k \<le> 2 then n * 10 ^ (2 - k)
      else (n + 5 * 10 ^ (k - 3)) div 10 ^ (k - 2))"

definition toFixed2 :: "nat \<Rightarrow> string" where
  "toFixed2 cents =
     decimal_digits (cents div 100) @ ''.'' @
       [digit_char (cents mod 100 div 10), digit_char (cents mod 10)]"

definition formatCurrency :: "string \<Rightarrow> string" where
  "formatCurrency s =
     (case s of
        [] \<Rightarrow> s
      | c # r \<Rightarrow>
          if c = CHR ''-'' then
            (case parse_unsigned r of
               None \<Rightarrow> s
             | Some (ip, fp) \<Rightarrow> ''-'' @ toFixed2 (cents_of ip fp))
          else
            (case parse_unsigned s of
               None \<Rightarrow> s
             | Some (ip, fp) \<Rightarrow> toFixed2 (cents_of ip fp)))"

section \<open>Sample documents and a sample environment\<close>

text \<open>
  Three small documents with the trees \<open>xml2js\<close> gives for them in compact mode, an
  invoice with a version code the program does not know, and an environment whose
  generators hand back what they were given, so that a run can be evaluated.
\<close>

definition sample_invoice :: js where
  "sample_invoice =
     JObj [(''Faktura'', JObj [(''Naglowek'', JObj [(''KodFormularza'',
       JObj [(''_attributes'', JObj [(''kodSystemowy'', JStr ''FA (2)'')])])])])]"

definition sample_upo :: js where
  "sample_upo = JObj [(''Potwierdzenie'', JObj [(''NazwaPodmiotuPrzyjmujacego'', JObj [(''_text'', JStr ''MF'')])])]"

definition sample_other :: js where
  "sample_other = JObj [(''Dokument'', JObj [])]"

definition sample_invoice_v1 :: js where
  "sample_invoice_v1 =
     JObj [(''Faktura'', JObj [(''Naglowek'', JObj [(''KodFormularza'',
       JObj [(''_attributes'', JObj [(''kodSystemowy'', JStr ''FA (1)'')])])])])]"

definition sample_invoice_v3 :: js where
  "sample_invoice_v3 =
     JObj [(''Faktura'', JObj [(''Naglowek'', JObj [(''KodFormularza'',
       JObj [(''_attributes'', JObj [(''kodSystemowy'', JStr ''FA (3)'')])])])])]"

definition sample_invoice_v4 :: js where
  "sample_invoice_v4 =
     JObj [(''Faktura'', JObj [(''Naglowek'', JObj [(''KodFormularza'',
       JObj [(''_attributes'', JObj [(''kodSystemowy'', JStr ''FA (4)'')])])])])]"

definition sample_documents :: "(string \<times> js) list" where
  "sample_documents =
     [(''<Faktura><Naglowek><KodFormularza kodSystemowy='FA (2)'/></Naglowek></Faktura>'', sample_invoice),
      (''<Potwierdzenie><NazwaPodmiotuPrzyjmujacego>MF</NazwaPodmiotuPrzyjmujacego></Potwierdzenie>'', sample_upo),
      (''<Dokument/>'', sample_other)]"

text \<open>
  The sample renderer prints what the page descriptor holds: the page size, the
  orientation and the footer of page 3 of 12.  Each sample generator returns its own name,
  the invoice and the additional data it was called with.
\<close>

definition sample_render :: "string TDocumentDefinitions \<Rightarrow> string" where
  "sample_render d =
     ''%PDF '' @ (case d ''pageSize'' of Some (DStr s) \<Rightarrow> s | _ \<Rightarrow> ''?'') @ '' '' @
       (case d ''pageOrientation'' of Some (DStr s) \<Rightarrow> s | _ \<Rightarrow> ''?'') @ '' '' @
       (case d ''footer'' of
          Some (DFooter f) \<Rightarrow> text_of (f (Abs_page_number 3) (Abs_page_number 12))
        | _ \<Rightarrow> ''?'')"

definition sample_env :: "(string \<times> js \<times> AdditionalDataTypes, string) env" where
  "sample_env =
     \<lparr>xml2js = (\<lambda>s. case map_of sample_documents s of
                       None \<Rightarrow> Inl (Error ''Text data outside of root node.'')
                     | Some t \<Rightarrow> Inr t),
      stripPrefixes = (\<lambda>t. Inr t),
      basename = (\<lambda>p. rev (takeWhile (\<lambda>c. c \<noteq> CHR ''/'') (rev p))),
      generateFA1 = (\<lambda>f ad. Inr (''FA1'', f, ad)),
      generateFA2 = (\<lambda>f ad. Inr (''FA2'', f, ad)),
      generateFA3 = (\<lambda>f ad. Inr (''FA3'', f, ad)),
      getBlob = (\<lambda>(name, f, ad). Inr (Some (''%PDF '' @ name @ '' '' @ nrKSeF ad @
                   (case qrCode ad of None \<Rightarrow> [] | Some q \<Rightarrow> '' QR '' @ q)))),
      generateNaglowekUPO = (\<lambda>p. Inr ''naglowek''),
      generateDokumnetUPO = (\<lambda>p. Inr ''dokumenty''),
      generateStyle = Map.empty,
      createPdf_getBlob = (\<lambda>d. Inr (Some (sample_render d)))\<rparr>"


definition sample_values :: cli_values where
  "sample_values = \<lparr>output = None, type = None, ksef = None, qrcode = None, json = False\<rparr>"

definition sample_state :: state where
  "sample_state =
     \<lparr>files = [''/data/faktura.xml'' \<mapsto>
          ''<Faktura><Naglowek><KodFormularza kodSystemowy='FA (2)'/></Naglowek></Faktura>'',
        ''/data/upo.XML'' \<mapsto>
          ''<Potwierdzenie><NazwaPodmiotuPrzyjmujacego>MF</NazwaPodmiotuPrzyjmujacego></Potwierdzenie>'',
        ''/data/other.xml'' \<mapsto> ''<Dokument/>'',
        ''/data/blank.xml'' \<mapsto> [CHR 0x20, CHR 0x0A]],
      console = []\<rparr>"





section \<open>Classification\<close>

lemma generatePDFByVersion_codes:
  "generatePDFByVersion E (JStr ''FA (1)'') f ad = map_sum id Some (generateFA1 E f ad)"
  "generatePDFByVersion E (JStr ''FA (2)'') f ad = map_sum id Some (generateFA2 E f ad)"
  "generatePDFByVersion E (JStr ''FA (3)'') f ad = map_sum id Some (generateFA3 E f ad)"
  by (simp_all add: generatePDFByVersion_def)

lemma generateInvoicePDF_version:
  "get_prop xml ''Faktura'' = Some f \<Longrightarrow> truthy (Some f) \<Longrightarrow> kodSystemowy f = Some v \<Longrightarrow>
   truthy (Some v) \<Longrightarrow>
   generateInvoicePDF E xml nr qr =
     (case generatePDFByVersion E v f (additionalData_of nr qr) of
        Inl e \<Rightarrow> Inl e
      | Inr pdf \<Rightarrow> blob_of E pdf)"
  by (simp add: generateInvoicePDF_def)

lemma case_map_sum_Some:
  "(case map_sum id Some r of Inl e \<Rightarrow> Inl e | Inr pdf \<Rightarrow> blob_of E pdf) =
   (case r of Inl e \<Rightarrow> Inl e | Inr p \<Rightarrow> blob_of E (Some p))"
  by (cases r) simp_all

lemma generateInvoicePDF_FA1:
  "get_prop xml ''Faktura'' = Some f \<Longrightarrow> truthy (Some f) \<Longrightarrow>
   kodSystemowy f = Some (JStr ''FA (1)'') \<Longrightarrow>
   generateInvoicePDF E xml nr qr =
     (case generateFA1 E f (additionalData_of nr qr) of
        Inl e \<Rightarrow> Inl e
      | Inr p \<Rightarrow> blob_of E (Some p))"
  using generateInvoicePDF_version [of xml f "JStr ''FA (1)''" E nr qr]
  by (simp add: generatePDFByVersion_codes case_map_sum_Some)

lemma generateInvoicePDF_FA2:
  "get_prop xml ''Faktura'' = Some f \<Longrightarrow> truthy (Some f) \<Longrightarrow>
   kodSystemowy f = Some (JStr ''FA (2)'') \<Longrightarrow>
   generateInvoicePDF E xml nr qr =
     (case generateFA2 E f (additionalData_of nr qr) of
        Inl e \<Rightarrow> Inl e
      | Inr p \<Rightarrow> blob_of E (Some p))"
  using generateInvoicePDF_version [of xml f "JStr ''FA (2)''" E nr qr]
  by (simp add: generatePDFByVersion_codes case_map_sum_Some)

lemma generateInvoicePDF_FA3:
  "get_prop xml ''Faktura'' = Some f \<Longrightarrow> truthy (Some f) \<Longrightarrow>
   kodSystemowy f = Some (JStr ''FA (3)'') \<Longrightarrow>
   generateInvoicePDF E xml nr qr =
     (case generateFA3 E f (additionalData_of nr qr) of
        Inl e \<Rightarrow> Inl e
      | Inr p \<Rightarrow> blob_of E (Some p))"
  using generateInvoicePDF_version [of xml f "JStr ''FA (3)''" E nr qr]
  by (simp add: generatePDFByVersion_codes case_map_sum_Some)


lemma sample_faktura:
  "map_of [(''Faktura'', JObj [(''Naglowek'', JObj [(''KodFormularza'',
       JObj [(''_attributes'', JObj [(''kodSystemowy'', JStr code)])])])])] ''Faktura'' =
     Some (JObj [(''Naglowek'', JObj [(''KodFormularza'',
       JObj [(''_attributes'', JObj [(''kodSystemowy'', JStr code)])])])])
   \<and> truthy (Some (JObj [(''Naglowek'', JObj [(''KodFormularza'',
       JObj [(''_attributes'', JObj [(''kodSystemowy'', JStr code)])])])]))
   \<and> kodSystemowy (JObj [(''Naglowek'', JObj [(''KodFormularza'',
       JObj [(''_attributes'', JObj [(''kodSystemowy'', JStr code)])])])]) = Some (JStr code)"
  by (simp add: kodSystemowy_def)


text \<open>
  C2.  An invoice without a version code is rejected with the error "Invalid invoice XML:
  missing version information".  For an unrecognised code the claim fails on the code:
  \<open>generatePDFByVersion\<close> has no default case and returns \<open>undefined\<close> for the
  code \<open>FA (4)\<close>, and \<open>pdf.getBlob\<close> then throws the runtime's \<open>TypeError\<close>.
\<close>

theorem unknown_version_code_fails_with_TypeError:
  "generateInvoicePDF E (JObj [(''Faktura'', JObj [(''Naglowek'', JObj [])])]) nr qr =
     Inl (Error ''Invalid invoice XML: missing version information'')
   \<and> generateInvoicePDF E sample_invoice_v4 nr qr = Inl (TypeError undefined_getBlob_message)"
  by (simp add: sample_invoice_v4_def generateInvoicePDF_def kodSystemowy_def
      generatePDFByVersion_def blob_of_def)

section \<open>The type override\<close>

text \<open>
  C3, as stated, fails: an override that is the empty string is a string other than
  \<open>invoice\<close> and \<open>upo\<close>, yet \<open>validateDocumentType\<close> returns on it
  (\<open>if (!type) return\<close>) and the detection is consulted.
\<close>

theorem empty_override_is_no_override:
  "docType_of (Some []) sample_upo = Inr upo"
  by (simp add: docType_of_def validateDocumentType_def detectDocumentType_def sample_upo_def)

text \<open>
  C3, amended.  The override \<open>invoice\<close> or \<open>upo\<close> is used as it is, whatever the
  tree holds.  Any other non-empty override fails with the error "Invalid document type",
  and \<open>processFile\<close>, once the file is read and parsed, returns that error before any
  generator is called and with no file written.  The empty override counts as none.
\<close>

theorem override_bypasses_detection:
  "docType_of (Some ''invoice'') xml = Inr invoice
   \<and> docType_of (Some ''upo'') xml = Inr upo
   \<and> (t \<noteq> [] \<and> t \<noteq> ''invoice'' \<and> t \<noteq> ''upo'' \<longrightarrow>
        docType_of (Some t) xml =
          Inl (Error (''Invalid document type: '' @ t @ ''. Must be 'invoice' or 'upo'' @ [CHR 0x27])))
   \<and> (t \<noteq> [] \<and> t \<noteq> ''invoice'' \<and> t \<noteq> ''upo'' \<and> files st inputPath = Some xmlContent
        \<and> trim xmlContent \<noteq> [] \<and> parseXmlContent E xmlContent = Inr xml \<longrightarrow>
        processFile E (v\<lparr>type := Some t\<rparr>) st inputPath =
          (Inl (Error (''Invalid document type: '' @ t @ ''. Must be 'invoice' or 'upo'' @ [CHR 0x27])),
           log v st (''Loading: '' @ basename E inputPath)))
   \<and> docType_of (Some []) xml = detectDocumentType xml
   \<and> docType_of None xml = detectDocumentType xml"
  by (simp add: docType_of_def validateDocumentType_def as_DocumentType_def
      invalid_type_message_def processFile_def log_def Let_def)

theorem override_bypasses_detection_witness:
  "docType_of (Some ''invoice'') sample_upo = Inr invoice
   \<and> docType_of (Some ''upo'') sample_other = Inr upo
   \<and> docType_of (Some ''pdf'') sample_invoice =
       Inl (Error (''Invalid document type: pdf. Must be 'invoice' or 'upo'' @ [CHR 0x27]))
   \<and> processFile sample_env (sample_values\<lparr>type := Some ''pdf''\<rparr>) sample_state ''/data/faktura.xml'' =
       (Inl (Error (''Invalid document type: pdf. Must be 'invoice' or 'upo'' @ [CHR 0x27])),
        sample_state\<lparr>console := [''Loading: faktura.xml'']\<rparr>)"
proof -
  let ?c = "''<Faktura><Naglowek><KodFormularza kodSystemowy='FA (2)'/></Naglowek></Faktura>''"
  have h: "''pdf'' \<noteq> [] \<and> ''pdf'' \<noteq> ''invoice'' \<and> ''pdf'' \<noteq> ''upo''
      \<and> files sample_state ''/data/faktura.xml'' = Some ?c \<and> trim ?c \<noteq> []
      \<and> parseXmlContent sample_env ?c = Inr sample_invoice"
    by (simp add: sample_state_def trim_def is_whitespace_def parseXmlContent_def sample_env_def
        sample_documents_def)
  have a: "docType_of (Some ''invoice'') sample_upo = Inr invoice"
    using override_bypasses_detection [THEN conjunct1] .
  have b: "docType_of (Some ''upo'') sample_other = Inr upo"
    using override_bypasses_detection [THEN conjunct2, THEN conjunct1] .
  have c: "docType_of (Some ''pdf'') sample_invoice =
       Inl (Error (''Invalid document type: pdf. Must be 'invoice' or 'upo'' @ [CHR 0x27]))"
    using override_bypasses_detection [THEN conjunct2, THEN conjunct2, THEN conjunct1,
        of "''pdf''" sample_invoice]
    by simp
  have d: "processFile sample_env (sample_values\<lparr>type := Some ''pdf''\<rparr>) sample_state ''/data/faktura.xml'' =
       (Inl (Error (''Invalid document type: pdf. Must be 'invoice' or 'upo'' @ [CHR 0x27])),
        log sample_values sample_state (''Loading: '' @ basename sample_env ''/data/faktura.xml''))"
    using override_bypasses_detection [THEN conjunct2, THEN conjunct2, THEN conjunct2, THEN conjunct1,
        of "''pdf''" sample_state "''/data/faktura.xml''" ?c sample_env sample_invoice sample_values] h
    by simp
  have e: "log sample_values sample_state (''Loading: '' @ basename sample_env ''/data/faktura.xml'')
     = sample_state\<lparr>console := [''Loading: faktura.xml'']\<rparr>"
    by (simp add: log_def sample_values_def sample_env_def sample_state_def)
  from a b c d e show ?thesis by simp
qed

section \<open>Additional data of an invoice\<close>

text \<open>
  C4.  When no registry number is supplied, the additional data carries the default
  \<open>CLI-GENERATED\<close> as registry number and the QR payload as supplied, and that record
  is the one each of the three generators \<open>generateFA1\<close>, \<open>generateFA2\<close>,
  \<open>generateFA3\<close> is called with, together with the invoice.
\<close>

theorem default_registry_number:
  "additionalData_of None qr = \<lparr>nrKSeF = ''CLI-GENERATED'', qrCode = qr\<rparr>
   \<and> qrCode (additionalData_of nr qr) = qr
   \<and> (get_prop xml ''Faktura'' = Some f \<and> truthy (Some f) \<and> kodSystemowy f = Some ver
        \<and> truthy (Some ver) \<longrightarrow>
        generateInvoicePDF E xml None qr =
          (case generatePDFByVersion E ver f \<lparr>nrKSeF = ''CLI-GENERATED'', qrCode = qr\<rparr> of
             Inl e \<Rightarrow> Inl e
           | Inr pdf \<Rightarrow> blob_of E pdf))
   \<and> (get_prop xml ''Faktura'' = Some f \<and> truthy (Some f)
        \<and> kodSystemowy f = Some (JStr ''FA (1)'') \<longrightarrow>
        generateInvoicePDF E xml None qr =
          (case generateFA1 E f \<lparr>nrKSeF = ''CLI-GENERATED'', qrCode = qr\<rparr> of
             Inl e \<Rightarrow> Inl e
           | Inr p \<Rightarrow> blob_of E (Some p)))
   \<and> (get_prop xml ''Faktura'' = Some f \<and> truthy (Some f)
        \<and> kodSystemowy f = Some (JStr ''FA (2)'') \<longrightarrow>
        generateInvoicePDF E xml None qr =
          (case generateFA2 E f \<lparr>nrKSeF = ''CLI-GENERATED'', qrCode = qr\<rparr> of
             Inl e \<Rightarrow> Inl e
           | Inr p \<Rightarrow> blob_of E (Some p)))
   \<and> (get_prop xml ''Faktura'' = Some f \<and> truthy (Some f)
        \<and> kodSystemowy f = Some (JStr ''FA (3)'') \<longrightarrow>
        generateInvoicePDF E xml None qr =
          (case generateFA3 E f \<lparr>nrKSeF = ''CLI-GENERATED'', qrCode = qr\<rparr> of
             Inl e \<Rightarrow> Inl e
           | Inr p \<Rightarrow> blob_of E (Some p)))"
proof -
  have ad: "additionalData_of None qr = \<lparr>nrKSeF = ''CLI-GENERATED'', qrCode = qr\<rparr>"
    by (simp add: additionalData_of_def)
  show ?thesis
    using generateInvoicePDF_FA1 [of xml f E None qr] generateInvoicePDF_FA2 [of xml f E None qr]
      generateInvoicePDF_FA3 [of xml f E None qr] generateInvoicePDF_version [of xml f ver E None qr]
    unfolding ad by (simp add: additionalData_of_def)
qed

theorem default_registry_number_witness:
  "generateInvoicePDF sample_env sample_invoice_v1 None (Some ''https://qr.example/1'') =
     Inr ''%PDF FA1 CLI-GENERATED QR https://qr.example/1''
   \<and> generateInvoicePDF sample_env sample_invoice None (Some ''https://qr.example/1'') =
     Inr ''%PDF FA2 CLI-GENERATED QR https://qr.example/1''
   \<and> generateInvoicePDF sample_env sample_invoice_v3 None None =
     Inr ''%PDF FA3 CLI-GENERATED''"
proof -
  let ?f = "\<lambda>code. JObj [(''Naglowek'', JObj [(''KodFormularza'',
       JObj [(''_attributes'', JObj [(''kodSystemowy'', JStr code)])])])]"
  let ?qr = "Some ''https://qr.example/1''"
  note T = default_registry_number [THEN conjunct2, THEN conjunct2, THEN conjunct2]
  have h: "get_prop (JObj [(''Faktura'', ?f code)]) ''Faktura'' = Some (?f code)
      \<and> truthy (Some (?f code)) \<and> kodSystemowy (?f code) = Some (JStr code)" for code
    using sample_faktura [of code] by simp
  have "generateInvoicePDF sample_env sample_invoice_v1 None ?qr =
      (case generateFA1 sample_env (?f ''FA (1)'') \<lparr>nrKSeF = ''CLI-GENERATED'', qrCode = ?qr\<rparr> of
         Inl e \<Rightarrow> Inl e | Inr p \<Rightarrow> blob_of sample_env (Some p))"
    unfolding sample_invoice_v1_def
    using T [THEN conjunct1, of "JObj [(''Faktura'', ?f ''FA (1)'')]" "?f ''FA (1)''" sample_env ?qr]
      h [of "''FA (1)''"] by blast
  then have g1: "generateInvoicePDF sample_env sample_invoice_v1 None ?qr =
      Inr ''%PDF FA1 CLI-GENERATED QR https://qr.example/1''"
    by (simp add: blob_of_def sample_env_def)
  have "generateInvoicePDF sample_env sample_invoice None ?qr =
      (case generateFA2 sample_env (?f ''FA (2)'') \<lparr>nrKSeF = ''CLI-GENERATED'', qrCode = ?qr\<rparr> of
         Inl e \<Rightarrow> Inl e | Inr p \<Rightarrow> blob_of sample_env (Some p))"
    unfolding sample_invoice_def
    using T [THEN conjunct2, THEN conjunct1, of "JObj [(''Faktura'', ?f ''FA (2)'')]" "?f ''FA (2)''" sample_env ?qr]
      h [of "''FA (2)''"] by blast
  then have g2: "generateInvoicePDF sample_env sample_invoice None ?qr =
      Inr ''%PDF FA2 CLI-GENERATED QR https://qr.example/1''"
    by (simp add: blob_of_def sample_env_def)
  have "generateInvoicePDF sample_env sample_invoice_v3 None None =
      (case generateFA3 sample_env (?f ''FA (3)'') \<lparr>nrKSeF = ''CLI-GENERATED'', qrCode = None\<rparr> of
         Inl e \<Rightarrow> Inl e | Inr p \<Rightarrow> blob_of sample_env (Some p))"
    unfolding sample_invoice_v3_def
    using T [THEN conjunct2, THEN conjunct2, of "JObj [(''Faktura'', ?f ''FA (3)'')]" "?f ''FA (3)''" sample_env None]
      h [of "''FA (3)''"] by blast
  then have g3: "generateInvoicePDF sample_env sample_invoice_v3 None None = Inr ''%PDF FA3 CLI-GENERATED''"
    by (simp add: blob_of_def sample_env_def)
  from g1 g2 g3 show ?thesis by simp
qed

section \<open>The page descriptor\<close>

lemma generatePDFUPOFromParsed_renders:
  "generateNaglowekUPO E potwierdzenie = Inr naglowek \<Longrightarrow>
   generateDokumnetUPO E potwierdzenie = Inr dokumenty \<Longrightarrow>
   generatePDFUPOFromParsed E potwierdzenie =
     (case createPdf_getBlob E (docDefinition E naglowek dokumenty) of
        Inl e \<Rightarrow> Inl e
      | Inr None \<Rightarrow> Inl (NonError ''Error'')
      | Inr (Some blob) \<Rightarrow> Inr blob)"
  by (simp add: generatePDFUPOFromParsed_def)

lemma sample_page_numbers:
  "Rep_page_number (Abs_page_number 3) = 3" "Rep_page_number (Abs_page_number 12) = 12"
  by (simp_all add: Abs_page_number_inverse MAX_SAFE_INTEGER_def)

lemma sample_footer: "text_of (footer (Abs_page_number 3) (Abs_page_number 12)) = ''3 z 12''"
  by (simp add: footer_def Number_toString_def sample_page_numbers decimal_digits.simps
      digit_char_def)

text \<open>
  C5.  \<open>generatePDFUPOFromParsed\<close> hands the renderer the document definition built
  from the two content blocks, and \<open>generateUPOPDF\<close> calls it on the
  \<open>Potwierdzenie\<close> of the tree.  That definition has the page size A4 and the
  orientation landscape, whatever \<open>generateStyle()\<close> contributes.  The document
  definition of an invoice, as the specification describes it, has the page size A4 and
  the orientation portrait.
\<close>

theorem page_size_and_orientation:
  "(generateNaglowekUPO E potwierdzenie = Inr naglowek
      \<and> generateDokumnetUPO E potwierdzenie = Inr dokumenty \<longrightarrow>
      generatePDFUPOFromParsed E potwierdzenie =
        (case createPdf_getBlob E (docDefinition E naglowek dokumenty) of
           Inl e \<Rightarrow> Inl e
         | Inr None \<Rightarrow> Inl (NonError ''Error'')
         | Inr (Some blob) \<Rightarrow> Inr blob))
   \<and> generateUPOPDF E xml = generatePDFUPOFromParsed E (get_prop xml ''Potwierdzenie'')
   \<and> docDefinition E naglowek dokumenty ''pageSize'' = Some (DStr ''A4'')
   \<and> docDefinition E naglowek dokumenty ''pageOrientation'' = Some (DStr ''landscape'')
   \<and> invoiceDocDefinition style content ''pageSize'' = Some (DStr ''A4'')
   \<and> invoiceDocDefinition style content ''pageOrientation'' = Some (DStr ''portrait'')"
  by (simp add: generatePDFUPOFromParsed_renders generateUPOPDF_def docDefinition_def
      invoiceDocDefinition_def)

theorem page_size_and_orientation_witness:
  "generateUPOPDF sample_env sample_upo = Inr ''%PDF A4 landscape 3 z 12''"
proof -
  let ?p = "get_prop sample_upo ''Potwierdzenie''"
  have h: "generateNaglowekUPO sample_env ?p = Inr ''naglowek''
      \<and> generateDokumnetUPO sample_env ?p = Inr ''dokumenty''"
    by (simp add: sample_env_def)
  have "generatePDFUPOFromParsed sample_env ?p =
      (case createPdf_getBlob sample_env (docDefinition sample_env ''naglowek'' ''dokumenty'') of
         Inl e \<Rightarrow> Inl e
       | Inr None \<Rightarrow> Inl (NonError ''Error'')
       | Inr (Some blob) \<Rightarrow> Inr blob)"
    using page_size_and_orientation [THEN conjunct1, of sample_env ?p "''naglowek''" "''dokumenty''"] h
    by blast
  moreover have "createPdf_getBlob sample_env (docDefinition sample_env ''naglowek'' ''dokumenty'') =
      Inr (Some (sample_render (docDefinition sample_env ''naglowek'' ''dokumenty'')))"
    by (simp add: sample_env_def)
  moreover have "sample_render (docDefinition sample_env ''naglowek'' ''dokumenty'') =
      ''%PDF A4 landscape 3 z 12''"
    using page_size_and_orientation [THEN conjunct2, THEN conjunct2,
        of sample_env "''naglowek''" "''dokumenty''"]
    by (simp add: sample_render_def docDefinition_def sample_footer)
  moreover have "generateUPOPDF sample_env sample_upo = generatePDFUPOFromParsed sample_env ?p"
    using page_size_and_orientation [THEN conjunct2, THEN conjunct1] .
  ultimately show ?thesis by simp
qed

section \<open>The footer\<close>

lemma digit_cases: "d < 10 \<Longrightarrow> d \<in> {0, 1, 2, 3, 4, 5, 6, 7, 8, 9::nat}"
  by auto

lemma is_digit_digit_char: "d < 10 \<Longrightarrow> is_digit (digit_char d)"
  using digit_cases [of d] by (auto simp add: is_digit_def digit_char_def)

lemma digit_value_digit_char: "d < 10 \<Longrightarrow> digit_value (digit_char d) = d"
  using digit_cases [of d] by (auto simp add: digit_value_def digit_char_def)

lemma digit_char_zero: "d < 10 \<Longrightarrow> (digit_char d = CHR ''0'') = (d = 0)"
  using digit_cases [of d] by (auto simp add: digit_char_def)

lemma decimal_value_snoc: "decimal_value (ds @ [c]) = 10 * decimal_value ds + digit_value c"
  by (simp add: decimal_value_def)

lemma decimal_digits_digits: "list_all is_digit (decimal_digits n)"
proof (induction n rule: decimal_digits.induct)
  case (1 n)
  show ?case
  proof (cases "n < 10")
    case True
    then show ?thesis by (simp add: decimal_digits.simps [of n] is_digit_digit_char)
  next
    case False
    then show ?thesis
      using "1.IH" by (simp add: decimal_digits.simps [of n] is_digit_digit_char)
  qed
qed

lemma decimal_digits_value: "decimal_value (decimal_digits n) = n"
proof (induction n rule: decimal_digits.induct)
  case (1 n)
  show ?case
  proof (cases "n < 10")
    case True
    then show ?thesis
      by (simp add: decimal_digits.simps [of n] decimal_value_def digit_value_digit_char)
  next
    case False
    then show ?thesis
      using "1.IH" by (simp add: decimal_digits.simps [of n] decimal_value_snoc digit_value_digit_char)
  qed
qed

lemma decimal_digits_nonempty: "decimal_digits n \<noteq> []"
  by (simp add: decimal_digits.simps [of n])

lemma decimal_digits_leading: "(hd (decimal_digits n) = CHR ''0'') = (n = 0)"
proof (induction n rule: decimal_digits.induct)
  case (1 n)
  show ?case
  proof (cases "n < 10")
    case True
    then show ?thesis by (simp add: decimal_digits.simps [of n] digit_char_zero)
  next
    case False
    then have "n div 10 \<noteq> 0" by simp
    then show ?thesis
      using "1.IH" False by (simp add: decimal_digits.simps [of n] decimal_digits_nonempty)
  qed
qed

text \<open>
  C7.  The document definition that \<open>generatePDFUPOFromParsed\<close> hands the renderer
  holds the footer as a function of the current page and the page count, not as text.  For
  every pair of page numbers the function returns a node aligned right whose text is the
  decimal digits of the current page, then \<open> z \<close>, then the decimal digits of the
  page count: the text of a page number consists of digits only, has the number as its
  value and starts with a zero only for zero.  Every natural number up to
  \<open>Number.MAX_SAFE_INTEGER\<close> is a page number.
\<close>

theorem footer_rule:
  "(generateNaglowekUPO E potwierdzenie = Inr naglowek
      \<and> generateDokumnetUPO E potwierdzenie = Inr dokumenty \<longrightarrow>
      generatePDFUPOFromParsed E potwierdzenie =
        (case createPdf_getBlob E (docDefinition E naglowek dokumenty) of
           Inl e \<Rightarrow> Inl e
         | Inr None \<Rightarrow> Inl (NonError ''Error'')
         | Inr (Some blob) \<Rightarrow> Inr blob))
   \<and> docDefinition E naglowek dokumenty ''footer'' = Some (DFooter footer)
   \<and> footer currentPage pageCount =
       \<lparr>text_of = Number_toString currentPage @ '' z '' @ Number_toString pageCount,
        alignment = RIGHT, margin = [0, 0, 20, 0]\<rparr>
   \<and> list_all is_digit (Number_toString n)
   \<and> decimal_value (Number_toString n) = Rep_page_number n
   \<and> (hd (Number_toString n) = CHR ''0'') = (Rep_page_number n = 0)
   \<and> (k \<le> MAX_SAFE_INTEGER \<longrightarrow> decimal_value (Number_toString (Abs_page_number k)) = k)"
  by (simp add: generatePDFUPOFromParsed_renders docDefinition_def footer_def Number_toString_def
      decimal_digits_digits decimal_digits_value decimal_digits_leading Abs_page_number_inverse)

theorem footer_rule_witness:
  "generatePDFUPOFromParsed sample_env (get_prop sample_upo ''Potwierdzenie'') =
     Inr ''%PDF A4 landscape 3 z 12''
   \<and> text_of (footer (Abs_page_number 3) (Abs_page_number 12)) = ''3 z 12''
   \<and> alignment (footer (Abs_page_number 3) (Abs_page_number 12)) = RIGHT
   \<and> decimal_value (Number_toString (Abs_page_number 12)) = 12"
proof -
  let ?p = "get_prop sample_upo ''Potwierdzenie''"
  have h: "generateNaglowekUPO sample_env ?p = Inr ''naglowek''
      \<and> generateDokumnetUPO sample_env ?p = Inr ''dokumenty''"
    by (simp add: sample_env_def)
  have "generatePDFUPOFromParsed sample_env ?p =
      (case createPdf_getBlob sample_env (docDefinition sample_env ''naglowek'' ''dokumenty'') of
         Inl e \<Rightarrow> Inl e
       | Inr None \<Rightarrow> Inl (NonError ''Error'')
       | Inr (Some blob) \<Rightarrow> Inr blob)"
    using footer_rule [THEN conjunct1, of sample_env ?p "''naglowek''" "''dokumenty''"] h
    by blast
  moreover have "createPdf_getBlob sample_env (docDefinition sample_env ''naglowek'' ''dokumenty'') =
      Inr (Some (sample_render (docDefinition sample_env ''naglowek'' ''dokumenty'')))"
    by (simp add: sample_env_def)
  moreover have "docDefinition sample_env ''naglowek'' ''dokumenty'' ''footer'' = Some (DFooter footer)"
    using footer_rule [THEN conjunct2, THEN conjunct1] .
  then have "sample_render (docDefinition sample_env ''naglowek'' ''dokumenty'') =
      ''%PDF A4 landscape 3 z 12''"
    by (simp add: sample_render_def docDefinition_def sample_footer)
  ultimately have a: "generatePDFUPOFromParsed sample_env ?p = Inr ''%PDF A4 landscape 3 z 12''"
    by simp
  have f: "footer (Abs_page_number 3) (Abs_page_number 12) =
      \<lparr>text_of = Number_toString (Abs_page_number 3) @ '' z '' @ Number_toString (Abs_page_number 12),
       alignment = RIGHT, margin = [0, 0, 20, 0]\<rparr>"
    using footer_rule [THEN conjunct2, THEN conjunct2, THEN conjunct1] .
  have b: "alignment (footer (Abs_page_number 3) (Abs_page_number 12)) = RIGHT"
    by (simp add: f)
  have "(12::nat) \<le> MAX_SAFE_INTEGER" by (simp add: MAX_SAFE_INTEGER_def)
  then have c: "decimal_value (Number_toString (Abs_page_number 12)) = 12"
    using footer_rule [THEN conjunct2, THEN conjunct2, THEN conjunct2, THEN conjunct2,
        THEN conjunct2, THEN conjunct2, of 12] by blast
  from a b c sample_footer show ?thesis by simp
qed

section \<open>The output path\<close>

lemma toLowerCase_char_dot: "(toLowerCase_char c = CHR ''.'') = (c = CHR ''.'')"
  by (simp add: toLowerCase_char_def)

lemma toLowerCase_char_x: "(toLowerCase_char c = CHR ''x'') = (c = CHR ''x'' \<or> c = CHR ''X'')"
  by (simp add: toLowerCase_char_def)

lemma toLowerCase_char_m: "(toLowerCase_char c = CHR ''m'') = (c = CHR ''m'' \<or> c = CHR ''M'')"
  by (simp add: toLowerCase_char_def)

lemma toLowerCase_char_l: "(toLowerCase_char c = CHR ''l'') = (c = CHR ''l'' \<or> c = CHR ''L'')"
  by (simp add: toLowerCase_char_def)

lemma endsWith_append: "endsWith (xs @ ys) ys"
  by (simp add: endsWith_def)

lemma length4: "length t = 4 \<Longrightarrow> \<exists>a b c d. t = [a, b, c, d]"
proof -
  assume "length t = 4"
  then have "length t = Suc (Suc (Suc (Suc 0)))" by simp
  then show ?thesis by (auto simp add: length_Suc_conv)
qed

lemma hasXmlExt_iff:
  "endsWith (toLowerCase p) ''.xml'' =
     (\<exists>stem x m l. p = stem @ [CHR ''.'', x, m, l] \<and> x \<in> {CHR ''x'', CHR ''X''}
        \<and> m \<in> {CHR ''m'', CHR ''M''} \<and> l \<in> {CHR ''l'', CHR ''L''})"
proof
  assume e: "endsWith (toLowerCase p) ''.xml''"
  have l4: "length ''.xml'' = 4" by simp
  have lp: "length (toLowerCase p) = length p" by (simp add: toLowerCase_def)
  from e have "length ''.xml'' \<le> length (toLowerCase p)
      \<and> drop (length (toLowerCase p) - length ''.xml'') (toLowerCase p) = ''.xml''"
    unfolding endsWith_def .
  then have len: "4 \<le> length p" and d: "drop (length p - 4) (toLowerCase p) = ''.xml''"
    unfolding l4 lp by blast+
  define t where "t = drop (length p - 4) p"
  have lt: "length t = 4" using len by (simp add: t_def)
  then obtain a b c d' where t: "t = [a, b, c, d']"
    using length4 by blast
  have "map toLowerCase_char t = ''.xml''"
    using d by (simp add: t_def toLowerCase_def drop_map)
  then have "a = CHR ''.'' \<and> b \<in> {CHR ''x'', CHR ''X''} \<and> c \<in> {CHR ''m'', CHR ''M''}
      \<and> d' \<in> {CHR ''l'', CHR ''L''}"
    by (simp add: t toLowerCase_char_dot toLowerCase_char_x toLowerCase_char_m toLowerCase_char_l)
  moreover have "p = take (length p - 4) p @ t" by (simp add: t_def)
  ultimately show "\<exists>stem x m l. p = stem @ [CHR ''.'', x, m, l] \<and> x \<in> {CHR ''x'', CHR ''X''}
        \<and> m \<in> {CHR ''m'', CHR ''M''} \<and> l \<in> {CHR ''l'', CHR ''L''}"
    using t by metis
next
  assume "\<exists>stem x m l. p = stem @ [CHR ''.'', x, m, l] \<and> x \<in> {CHR ''x'', CHR ''X''}
        \<and> m \<in> {CHR ''m'', CHR ''M''} \<and> l \<in> {CHR ''l'', CHR ''L''}"
  then obtain stem x m l where p: "p = stem @ [CHR ''.'', x, m, l]"
    and x: "toLowerCase_char x = CHR ''x''" and m: "toLowerCase_char m = CHR ''m''"
    and l: "toLowerCase_char l = CHR ''l''"
    using toLowerCase_char_x toLowerCase_char_m toLowerCase_char_l by blast
  have "toLowerCase p = toLowerCase stem @ ''.xml''"
    using x m l by (simp add: p toLowerCase_def toLowerCase_char_dot)
  then show "endsWith (toLowerCase p) ''.xml''"
    by (simp add: endsWith_append)
qed

text \<open>
  C10.  With no output path supplied, an input path that ends in \<open>.xml\<close> in any mix of
  upper and lower case gets these four characters replaced by \<open>.pdf\<close>; any other
  input path gets \<open>.pdf\<close> appended.
\<close>

theorem derived_output_path:
  "(x \<in> {CHR ''x'', CHR ''X''} \<and> m \<in> {CHR ''m'', CHR ''M''} \<and> l \<in> {CHR ''l'', CHR ''L''} \<longrightarrow>
      getOutputPath (stem @ [CHR ''.'', x, m, l]) None = stem @ ''.pdf'')
   \<and> (\<not> (\<exists>stem x m l. inputPath = stem @ [CHR ''.'', x, m, l] \<and> x \<in> {CHR ''x'', CHR ''X''}
          \<and> m \<in> {CHR ''m'', CHR ''M''} \<and> l \<in> {CHR ''l'', CHR ''L''}) \<longrightarrow>
      getOutputPath inputPath None = inputPath @ ''.pdf'')"
proof (intro conjI impI)
  assume h: "x \<in> {CHR ''x'', CHR ''X''} \<and> m \<in> {CHR ''m'', CHR ''M''} \<and> l \<in> {CHR ''l'', CHR ''L''}"
  let ?p = "stem @ [CHR ''.'', x, m, l]"
  have "endsWith (toLowerCase ?p) ''.xml''"
    unfolding hasXmlExt_iff using h by blast
  moreover have "slice_0_minus4 ?p = stem"
    by (simp add: slice_0_minus4_def)
  ultimately show "getOutputPath ?p None = stem @ ''.pdf''"
    by (simp add: getOutputPath_def)
next
  assume "\<not> (\<exists>stem x m l. inputPath = stem @ [CHR ''.'', x, m, l] \<and> x \<in> {CHR ''x'', CHR ''X''}
          \<and> m \<in> {CHR ''m'', CHR ''M''} \<and> l \<in> {CHR ''l'', CHR ''L''})"
  then have "\<not> endsWith (toLowerCase inputPath) ''.xml''"
    unfolding hasXmlExt_iff .
  then show "getOutputPath inputPath None = inputPath @ ''.pdf''"
    by (simp add: getOutputPath_def)
qed

theorem derived_output_path_witness:
  "getOutputPath ''/data/upo.XML'' None = ''/data/upo.pdf''
   \<and> getOutputPath ''faktura.Xml'' None = ''faktura.pdf''
   \<and> getOutputPath ''faktura.xml.bak'' None = ''faktura.xml.bak.pdf''"
proof -
  have a: "getOutputPath (''/data/upo'' @ [CHR ''.'', CHR ''X'', CHR ''M'', CHR ''L'']) None = ''/data/upo'' @ ''.pdf''"
    using derived_output_path [THEN conjunct1, of "CHR ''X''" "CHR ''M''" "CHR ''L''" "''/data/upo''"]
    by blast
  have b: "getOutputPath (''faktura'' @ [CHR ''.'', CHR ''X'', CHR ''m'', CHR ''l'']) None = ''faktura'' @ ''.pdf''"
    using derived_output_path [THEN conjunct1, of "CHR ''X''" "CHR ''m''" "CHR ''l''" "''faktura''"]
    by blast
  have "\<not> (\<exists>stem x m l. ''faktura.xml.bak'' = stem @ [CHR ''.'', x, m, l] \<and> x \<in> {CHR ''x'', CHR ''X''}
          \<and> m \<in> {CHR ''m'', CHR ''M''} \<and> l \<in> {CHR ''l'', CHR ''L''})"
  proof
    assume "\<exists>stem x m l. ''faktura.xml.bak'' = stem @ [CHR ''.'', x, m, l] \<and> x \<in> {CHR ''x'', CHR ''X''}
          \<and> m \<in> {CHR ''m'', CHR ''M''} \<and> l \<in> {CHR ''l'', CHR ''L''}"
    then obtain stem x m l where e: "''faktura.xml.bak'' = stem @ [CHR ''.'', x, m, l]"
      and l: "l \<in> {CHR ''l'', CHR ''L''}" by blast
    from e have "last ''faktura.xml.bak'' = last (stem @ [CHR ''.'', x, m, l])" by simp
    then have "l = CHR ''k''" by simp
    with l show False by simp
  qed
  then have c: "getOutputPath ''faktura.xml.bak'' None = ''faktura.xml.bak'' @ ''.pdf''"
    using derived_output_path [THEN conjunct2, of "''faktura.xml.bak''"] by blast
  from a b c show ?thesis by simp
qed

section \<open>Processing one file\<close>




















section \<open>Prefix stripping\<close>





















section \<open>The currency formatter\<close>

lemma is_digit_not_point: "\<not> is_digit (CHR ''.'')"
  by (simp add: is_digit_def)

lemma takeWhile_digits: "list_all is_digit ds \<Longrightarrow> takeWhile is_digit (ds @ CHR ''.'' # r) = ds"
  by (induction ds) (simp_all add: is_digit_not_point)

lemma dropWhile_digits:
  "list_all is_digit ds \<Longrightarrow> dropWhile is_digit (ds @ CHR ''.'' # r) = CHR ''.'' # r"
  by (induction ds) (simp_all add: is_digit_not_point)

lemma takeWhile_all_digits: "list_all is_digit ds \<Longrightarrow> takeWhile is_digit ds = ds"
  by (induction ds) simp_all

lemma dropWhile_all_digits: "list_all is_digit ds \<Longrightarrow> dropWhile is_digit ds = []"
  by (induction ds) simp_all

lemma parse_unsigned_numeric:
  assumes "is_unsigned_numeric s"
  shows "parse_unsigned s \<noteq> None"
proof (cases "is_digits s")
  case True
  then show ?thesis
    by (simp add: parse_unsigned_def is_digits_def takeWhile_all_digits dropWhile_all_digits)
next
  case False
  with assms obtain i where i: "i < length s" and pt: "s ! i = CHR ''.''"
    and a: "is_digits (take i s)" and b: "is_digits (drop (Suc i) s)"
    by (auto simp add: is_unsigned_numeric_def list_ex_iff)
  from i pt have s: "s = take i s @ CHR ''.'' # drop (Suc i) s"
    by (metis id_take_nth_drop)
  from a have da: "list_all is_digit (take i s)" and na: "take i s \<noteq> []"
    by (simp_all add: is_digits_def)
  have t: "takeWhile is_digit s = take i s"
    using takeWhile_digits [OF da, of "drop (Suc i) s"] s by simp
  have d: "dropWhile is_digit s = CHR ''.'' # drop (Suc i) s"
    using dropWhile_digits [OF da, of "drop (Suc i) s"] s by simp
  show ?thesis
    using na b by (simp add: parse_unsigned_def t d)
qed

lemma parse_unsigned_Some:
  assumes "parse_unsigned s \<noteq> None"
  shows "is_unsigned_numeric s"
proof -
  let ?ip = "takeWhile is_digit s" and ?rest = "dropWhile is_digit s"
  have s: "s = ?ip @ ?rest" by simp
  have dip: "list_all is_digit ?ip"
    by (simp add: list_all_iff) (meson set_takeWhileD)
  from assms have ne: "?ip \<noteq> []"
    by (auto simp add: parse_unsigned_def Let_def split: if_splits)
  show ?thesis
  proof (cases "?rest = []")
    case True
    with s have "s = ?ip" by simp
    with dip ne have "is_digits s" by (simp add: is_digits_def)
    then show ?thesis by (simp add: is_unsigned_numeric_def)
  next
    case False
    with assms ne have h: "hd ?rest = CHR ''.''" and f: "is_digits (tl ?rest)"
      by (auto simp add: parse_unsigned_def Let_def split: if_splits)
    from False h have r: "?rest = CHR ''.'' # tl ?rest"
      by (cases ?rest) simp_all
    let ?i = "length ?ip"
    have s': "s = ?ip @ CHR ''.'' # tl ?rest" using s r by metis
    have "?i < length s" using arg_cong [OF s', of length] by simp
    moreover have "s ! ?i = CHR ''.''"
      using arg_cong [OF s', of "\<lambda>l. l ! ?i"] by (simp add: nth_append)
    moreover have "take ?i s = ?ip"
      using arg_cong [OF s', of "take ?i"] by simp
    moreover have "drop (Suc ?i) s = tl ?rest"
      using arg_cong [OF s', of "drop (Suc ?i)"] by simp
    ultimately have "list_ex (\<lambda>i. s ! i = CHR ''.'' \<and> is_digits (take i s)
        \<and> is_digits (drop (Suc i) s)) [0..<length s]"
      using dip ne f by (auto simp add: list_ex_iff is_digits_def)
    then show ?thesis by (simp add: is_unsigned_numeric_def)
  qed
qed

lemma parse_unsigned_None_iff: "(parse_unsigned s = None) = (\<not> is_unsigned_numeric s)"
  using parse_unsigned_numeric parse_unsigned_Some by blast

lemma formatCurrency_not_numeric: "\<not> is_numeric s \<Longrightarrow> formatCurrency s = s"
proof (cases s)
  case Nil
  then show ?thesis by (simp add: formatCurrency_def)
next
  case (Cons c r)
  assume n: "\<not> is_numeric s"
  show ?thesis
  proof (cases "c = CHR ''-''")
    case True
    with n Cons have "\<not> is_unsigned_numeric r" by (simp add: is_numeric_def)
    then have "parse_unsigned r = None" by (simp add: parse_unsigned_None_iff)
    with True Cons show ?thesis by (simp add: formatCurrency_def)
  next
    case False
    from n have "\<not> is_unsigned_numeric s" by (simp add: is_numeric_def)
    then have "parse_unsigned s = None" by (simp add: parse_unsigned_None_iff)
    with False Cons show ?thesis by (simp add: formatCurrency_def)
  qed
qed

lemma formatCurrency_1234_5: "formatCurrency ''1234.5'' = ''1234.50''"
  by (simp add: formatCurrency_def parse_unsigned_def is_digit_def is_digits_def cents_of_def
      decimal_value_def digit_value_def toFixed2_def decimal_digits.simps digit_char_def)

lemma abc_not_numeric: "\<not> is_numeric ''abc''"
  by (simp add: is_numeric_def is_unsigned_numeric_def is_digits_def is_digit_def)

lemma toFixed2_form:
  "\<exists>ds d1 d2. toFixed2 cents = ds @ ''.'' @ [d1, d2] \<and> is_digits ds \<and> is_digit d1 \<and> is_digit d2"
proof -
  have "is_digits (decimal_digits (cents div 100))"
    by (simp add: is_digits_def decimal_digits_digits decimal_digits_nonempty)
  moreover have "is_digit (digit_char (cents mod 100 div 10))"
    by (simp add: is_digit_digit_char)
  moreover have "is_digit (digit_char (cents mod 10))"
    by (simp add: is_digit_digit_char)
  ultimately show ?thesis
    by (intro exI [of _ "decimal_digits (cents div 100)"]
        exI [of _ "digit_char (cents mod 100 div 10)"] exI [of _ "digit_char (cents mod 10)"])
      (simp add: toFixed2_def)
qed

lemma formatCurrency_numeric:
  assumes "is_numeric s"
  shows "\<exists>sign ds d1 d2. formatCurrency s = sign @ ds @ ''.'' @ [d1, d2]
           \<and> (sign = [] \<or> sign = ''-'') \<and> is_digits ds \<and> is_digit d1 \<and> is_digit d2"
proof (cases s)
  case Nil
  with assms show ?thesis
    by (simp add: is_numeric_def is_unsigned_numeric_def is_digits_def)
next
  case (Cons c r)
  show ?thesis
  proof (cases "c = CHR ''-''")
    case True
    have "parse_unsigned s = None"
      using True Cons by (simp add: parse_unsigned_def is_digit_def)
    then have "\<not> is_unsigned_numeric s" by (simp add: parse_unsigned_None_iff)
    with assms Cons have "is_unsigned_numeric r" by (simp add: is_numeric_def)
    then obtain ip fp where "parse_unsigned r = Some (ip, fp)"
      using parse_unsigned_numeric [of r] by (cases "parse_unsigned r") auto
    with True Cons have f: "formatCurrency s = ''-'' @ toFixed2 (cents_of ip fp)"
      by (simp add: formatCurrency_def)
    from toFixed2_form [of "cents_of ip fp"] obtain ds d1 d2
      where "toFixed2 (cents_of ip fp) = ds @ ''.'' @ [d1, d2]"
        and "is_digits ds" "is_digit d1" "is_digit d2" by (elim exE conjE)
    with f show ?thesis
      by (intro exI [of _ "''-''"] exI [of _ ds] exI [of _ d1] exI [of _ d2]) simp
  next
    case False
    have "\<not> is_unsigned_numeric (tl s) \<or> hd s \<noteq> CHR ''-''" using False Cons by simp
    with assms have "is_unsigned_numeric s" by (auto simp add: is_numeric_def)
    then obtain ip fp where "parse_unsigned s = Some (ip, fp)"
      using parse_unsigned_numeric [of s] by (cases "parse_unsigned s") auto
    with False Cons have f: "formatCurrency s = [] @ toFixed2 (cents_of ip fp)"
      by (simp add: formatCurrency_def)
    from toFixed2_form [of "cents_of ip fp"] obtain ds d1 d2
      where "toFixed2 (cents_of ip fp) = ds @ ''.'' @ [d1, d2]"
        and "is_digits ds" "is_digit d1" "is_digit d2" by (elim exE conjE)
    with f show ?thesis
      by (intro exI [of _ "[]"] exI [of _ ds] exI [of _ d1] exI [of _ d2]) simp
  qed
qed

text \<open>
  C8.  The formatter maps \<open>1234.5\<close> to \<open>1234.50\<close> and \<open>abc\<close> to itself; it
  returns every string that is not numeric unchanged, and for every numeric string an
  amount with exactly two decimals.  Being a total function it has a result on every
  string.
\<close>

theorem currency_formatter:
  "formatCurrency ''1234.5'' = ''1234.50''
   \<and> formatCurrency ''abc'' = ''abc''
   \<and> (\<not> is_numeric s \<longrightarrow> formatCurrency s = s)
   \<and> (is_numeric s \<longrightarrow>
        (\<exists>sign ds d1 d2. formatCurrency s = sign @ ds @ ''.'' @ [d1, d2]
           \<and> (sign = [] \<or> sign = ''-'') \<and> is_digits ds \<and> is_digit d1 \<and> is_digit d2))"
  using formatCurrency_numeric [of s]
  by (simp add: formatCurrency_1234_5 formatCurrency_not_numeric abc_not_numeric)

theorem currency_formatter_witness:
  "\<not> is_numeric ''12,50 PLN'' \<and> formatCurrency ''12,50 PLN'' = ''12,50 PLN''
   \<and> is_numeric ''-7.125'' \<and> formatCurrency ''-7.125'' = ''-7.13''"
proof -
  have n: "\<not> is_numeric ''12,50 PLN''"
    by (simp add: is_numeric_def is_unsigned_numeric_def is_digits_def is_digit_def)
  with currency_formatter [THEN conjunct2, THEN conjunct2, THEN conjunct1, of "''12,50 PLN''"]
  have a: "formatCurrency ''12,50 PLN'' = ''12,50 PLN''" by blast
  have m: "is_numeric ''-7.125''"
    by (simp add: is_numeric_def is_unsigned_numeric_def is_digits_def is_digit_def)
  have b: "formatCurrency ''-7.125'' = ''-7.13''"
    by (simp add: formatCurrency_def parse_unsigned_def is_digit_def is_digits_def cents_of_def
      decimal_value_def digit_value_def toFixed2_def decimal_digits.simps digit_char_def)
  from n a m b show ?thesis by blast
qed

end
